theory Spec2Isabelle
  imports Complex_Main
begin

section \<open>JavaScript values\<close>

text \<open>
  The miner (\<^verbatim>\<open>miner.js\<close>) computes with JavaScript numbers. A number is NaN, one of the
  two infinities, or a finite double; a finite double is modelled by the real it denotes,
  so rounding, overflow to infinity and the sign of zero are not part of the model.
\<close>

datatype jsnum = NaN | PInf | NInf | Fin real

text \<open>
  The scalar fields of the bot, of the session file and of the server's replies hold
  \<^verbatim>\<open>undefined\<close>, \<^verbatim>\<open>null\<close>, a boolean or a number. Strings and
  objects in these fields are outside the model (their arithmetic goes through the
  runtime's conversion between strings and numbers).
\<close>

datatype jsprim = Undefined | Null | Bool bool | Num jsnum

text \<open>Any value, as far as \<^verbatim>\<open>typeof\<close> tells values apart.\<close>

datatype jsval = Prim jsprim | Str string | Object

fun typeof :: "jsval \<Rightarrow> string" where
  "typeof (Prim Undefined) = ''undefined''"
| "typeof (Prim Null) = ''object''"
| "typeof (Prim (Bool b)) = ''boolean''"
| "typeof (Prim (Num n)) = ''number''"
| "typeof (Str s) = ''string''"
| "typeof Object = ''object''"

text \<open>\<^verbatim>\<open>ToNumber\<close> and \<^verbatim>\<open>ToBoolean\<close> of ECMAScript, on these values.\<close>

fun ToNumber :: "jsprim \<Rightarrow> jsnum" where
  "ToNumber Undefined = NaN"
| "ToNumber Null = Fin 0"
| "ToNumber (Bool b) = (if b then Fin 1 else Fin 0)"
| "ToNumber (Num n) = n"

fun truthy :: "jsprim \<Rightarrow> bool" where
  "truthy Undefined = False"
| "truthy Null = False"
| "truthy (Bool b) = b"
| "truthy (Num NaN) = False"
| "truthy (Num (Fin x)) = (x \<noteq> 0)"
| "truthy (Num n) = True"

text \<open>Arithmetic on numbers: IEEE 754 on the special values, exact on the finite ones.\<close>

fun num_neg :: "jsnum \<Rightarrow> jsnum" where
  "num_neg NaN = NaN"
| "num_neg PInf = NInf"
| "num_neg NInf = PInf"
| "num_neg (Fin x) = Fin (- x)"

fun num_add :: "jsnum \<Rightarrow> jsnum \<Rightarrow> jsnum" where
  "num_add NaN y = NaN"
| "num_add x NaN = NaN"
| "num_add PInf NInf = NaN"
| "num_add NInf PInf = NaN"
| "num_add PInf y = PInf"
| "num_add x PInf = PInf"
| "num_add NInf y = NInf"
| "num_add x NInf = NInf"
| "num_add (Fin x) (Fin y) = Fin (x + y)"

definition num_sub :: "jsnum \<Rightarrow> jsnum \<Rightarrow> jsnum" where
  "num_sub x y = num_add x (num_neg y)"

text \<open>An infinity with the sign of \<open>s\<close>; NaN when \<open>s\<close> is zero.\<close>

definition inf_signed :: "real \<Rightarrow> jsnum" where
  "inf_signed s = (if s = 0 then NaN else if 0 < s then PInf else NInf)"

fun num_mul :: "jsnum \<Rightarrow> jsnum \<Rightarrow> jsnum" where
  "num_mul NaN y = NaN"
| "num_mul x NaN = NaN"
| "num_mul (Fin x) (Fin y) = Fin (x * y)"
| "num_mul (Fin x) PInf = inf_signed x"
| "num_mul (Fin x) NInf = inf_signed (- x)"
| "num_mul PInf (Fin y) = inf_signed y"
| "num_mul NInf (Fin y) = inf_signed (- y)"
| "num_mul PInf PInf = PInf"
| "num_mul NInf NInf = PInf"
| "num_mul PInf NInf = NInf"
| "num_mul NInf PInf = NInf"

fun num_div :: "jsnum \<Rightarrow> jsnum \<Rightarrow> jsnum" where
  "num_div NaN y = NaN"
| "num_div x NaN = NaN"
| "num_div (Fin x) (Fin y) = (if y = 0 then inf_signed x else Fin (x / y))"
| "num_div (Fin x) y = Fin 0"
| "num_div PInf (Fin y) = (if 0 \<le> y then PInf else NInf)"
| "num_div NInf (Fin y) = (if 0 \<le> y then NInf else PInf)"
| "num_div x y = NaN"

text \<open>The comparison \<^verbatim>\<open>x >= y\<close> on numbers: false as soon as one side is NaN.\<close>

fun num_ge :: "jsnum \<Rightarrow> jsnum \<Rightarrow> bool" where
  "num_ge NaN y = False"
| "num_ge x NaN = False"
| "num_ge PInf y = True"
| "num_ge x NInf = True"
| "num_ge NInf y = False"
| "num_ge x PInf = False"
| "num_ge (Fin x) (Fin y) = (y \<le> x)"

text \<open>
  The operators \<^verbatim>\<open>+\<close>, \<^verbatim>\<open>>=\<close> and \<^verbatim>\<open>||\<close> on scalar values. With no
  string operand, \<^verbatim>\<open>+\<close> is the numeric addition of the converted operands.
\<close>

definition js_add :: "jsprim \<Rightarrow> jsprim \<Rightarrow> jsprim" where
  "js_add a b = Num (num_add (ToNumber a) (ToNumber b))"


definition js_or :: "jsprim \<Rightarrow> jsprim \<Rightarrow> jsprim" where
  "js_or a b = (if truthy a then a else b)"

text \<open>The global functions \<^verbatim>\<open>isNaN\<close> and \<^verbatim>\<open>isFinite\<close>, on a number.\<close>

fun isNaN :: "jsnum \<Rightarrow> bool" where
  "isNaN NaN = True"
| "isNaN n = False"

fun isFinite :: "jsnum \<Rightarrow> bool" where
  "isFinite (Fin x) = True"
| "isFinite n = False"

section \<open>The mining bot\<close>

subsection \<open>Validation of an earnings value\<close>

text \<open>
  \<^verbatim>\<open>validateEarnings(earnings)\<close>: the conjunction is evaluated left to right and stops
  at the first false operand, so the three numeric tests only ever see a number.
\<close>

definition validateEarnings :: "jsval \<Rightarrow> bool" where
  "validateEarnings earnings =
     (typeof earnings = ''number'' \<and>
      (case earnings of
         Prim (Num n) \<Rightarrow> \<not> isNaN n \<and> isFinite n \<and> num_ge n (Fin 0)
       | _ \<Rightarrow> False))"


subsection \<open>State of a bot\<close>

record earnings =
  total :: jsprim
  pending :: jsprim
  paid :: jsprim

text \<open>
  \<^verbatim>\<open>this.currentEarnings\<close> is an object with the three fields; after a session file
  without an \<^verbatim>\<open>earnings\<close> entry has been loaded it is \<^verbatim>\<open>undefined\<close> or
  \<^verbatim>\<open>null\<close>, and reading a field of it throws a TypeError.
\<close>

datatype earnings_ref = EUndefined | ENull | EObj earnings

record miningState =
  isActive :: bool
  worker :: string
  pool :: string
  startTime :: jsprim

record shares =
  accepted :: nat
  rejected :: nat

record stats =
  hashrate :: jsnum
  shares :: shares
  efficiency :: jsnum
  powerUsage :: jsnum

record bot =
  wallet :: string
  botIndex :: nat
  currentEarnings :: earnings_ref
  miningState :: miningState
  referralBonus :: jsprim
  stats :: stats
  sessionFile :: string

text \<open>The constructor. The HTTP client \<^verbatim>\<open>this.api\<close> is the world below.\<close>

definition KaleidoMiningBot :: "string \<Rightarrow> nat \<Rightarrow> bot" where
  "KaleidoMiningBot w i =
     \<lparr> wallet = w,
       botIndex = i,
       currentEarnings = EObj \<lparr> total = Num (Fin 0), pending = Num (Fin 0), paid = Num (Fin 0) \<rparr>,
       miningState = \<lparr> isActive = False, worker = ''quantum-rig-1'', pool = ''quantum-1'',
                       startTime = Null \<rparr>,
       referralBonus = Num (Fin 0),
       stats = \<lparr> hashrate = Fin 75.5, shares = \<lparr> accepted = 0, rejected = 0 \<rparr>,
                 efficiency = Fin 1.4, powerUsage = Fin 120 \<rparr>,
       sessionFile = ''session_'' @ w @ ''.json'' \<rparr>"

subsection \<open>The world of a bot: server, files, console and timers\<close>

datatype error = HttpError nat | NetworkError | TypeError | SyntaxError | NotRegistered | IOError

text \<open>
  A reply of the server, as axios hands it over: \<^verbatim>\<open>response.data\<close> is the parsed
  body, \<open>None\<close> when the body is \<^verbatim>\<open>null\<close>. A reply with an error status is thrown
  as an error that carries the response (\<open>HttpError\<close>).
\<close>

record 'd response =
  data :: "'d option"

record update_data =
  success :: jsprim
  balance :: jsprim

record user_data =
  ud_referralBonus :: jsprim

record registration_data =
  isRegistered :: jsprim
  userData :: "user_data option"

record payload =
  p_wallet :: string
  p_earnings :: earnings

datatype request = Get string | Post string payload

text \<open>
  The session file. A text is either rejected by \<^verbatim>\<open>JSON.parse\<close> or is the text of
  a JSON document; a document is identified with what \<^verbatim>\<open>loadSession\<close> can read of
  it: \<^verbatim>\<open>null\<close>, a value that is no object (every property of it reads
  \<^verbatim>\<open>undefined\<close>), or an object with its entries \<^verbatim>\<open>startTime\<close>,
  \<^verbatim>\<open>earnings\<close> and \<^verbatim>\<open>referralBonus\<close>. JSON has no NaN, no infinity and no
  \<^verbatim>\<open>undefined\<close>: an entry is absent, null, a boolean or a finite number.
\<close>

datatype json_scalar = JAbsent | JNull | JBool bool | JNumber real

record json_earnings =
  j_total :: json_scalar
  j_pending :: json_scalar
  j_paid :: json_scalar

datatype json_earnings_entry = JEAbsent | JENull | JEObject json_earnings

record json_session =
  j_startTime :: json_scalar
  j_earnings :: json_earnings_entry
  j_referralBonus :: json_scalar

datatype json_doc = JDocNull | JDocOther | JDocObject json_session

datatype file_text = Garbage | JsonText json_doc

datatype fs_entry = NoFile | Unreadable | Text file_text

text \<open>
  The world: the replies the server will give to the two calls, in order (when none is
  left the call fails at the network); the requests sent so far; the files, and the
  paths that cannot be written.
\<close>

record world =
  registration_replies :: "(error + registration_data response) list"
  update_replies :: "(error + update_data response) list"
  requests :: "request list"
  files :: "string \<Rightarrow> fs_entry"
  read_only :: "string \<Rightarrow> bool"

text \<open>What the process does besides: calls of a request function, console lines, timer waits.\<close>

datatype message =
    Retrying string nat nat
  | MissingStartTime
  | InvalidEarnings
  | UpdateRejected
  | ApiError nat
  | UpdateFailed error
  | SaveFailed
  | SessionLoaded
  | MiningStarted bool
  | InitError nat
  | InitFailed error
  | Status bool
  | AlreadyRunning
  | Banner
  | ErrorLoadingWallets
  | NoValidWallets
  | LoadedWallets nat

datatype event = Request string | Console message | Sleep nat | Initialize nat

definition api_get :: "string \<Rightarrow> world \<Rightarrow> (error + registration_data response) \<times> world" where
  "api_get url w =
     (case registration_replies w of
        [] \<Rightarrow> (Inl NetworkError, w\<lparr>requests := requests w @ [Get url]\<rparr>)
      | reply # rest \<Rightarrow>
          (reply, w\<lparr>registration_replies := rest, requests := requests w @ [Get url]\<rparr>))"

definition api_post :: "string \<Rightarrow> payload \<Rightarrow> world \<Rightarrow> (error + update_data response) \<times> world" where
  "api_post url body w =
     (case update_replies w of
        [] \<Rightarrow> (Inl NetworkError, w\<lparr>requests := requests w @ [Post url body]\<rparr>)
      | reply # rest \<Rightarrow>
          (reply, w\<lparr>update_replies := rest, requests := requests w @ [Post url body]\<rparr>))"

subsection \<open>Session files\<close>

record sessionData =
  sd_startTime :: jsprim
  sd_earnings :: earnings_ref
  sd_referralBonus :: jsprim

text \<open>
  \<^verbatim>\<open>JSON.stringify\<close>: a property that is \<^verbatim>\<open>undefined\<close> is left out, NaN and the
  infinities are written as \<^verbatim>\<open>null\<close>.
\<close>

fun stringify_scalar :: "jsprim \<Rightarrow> json_scalar" where
  "stringify_scalar Undefined = JAbsent"
| "stringify_scalar Null = JNull"
| "stringify_scalar (Bool b) = JBool b"
| "stringify_scalar (Num (Fin x)) = JNumber x"
| "stringify_scalar (Num n) = JNull"

fun stringify_earnings :: "earnings_ref \<Rightarrow> json_earnings_entry" where
  "stringify_earnings EUndefined = JEAbsent"
| "stringify_earnings ENull = JENull"
| "stringify_earnings (EObj e) =
     JEObject \<lparr> j_total = stringify_scalar (total e), j_pending = stringify_scalar (pending e),
                j_paid = stringify_scalar (paid e) \<rparr>"

definition JSON_stringify :: "sessionData \<Rightarrow> file_text" where
  "JSON_stringify d =
     JsonText (JDocObject \<lparr> j_startTime = stringify_scalar (sd_startTime d),
                            j_earnings = stringify_earnings (sd_earnings d),
                            j_referralBonus = stringify_scalar (sd_referralBonus d) \<rparr>)"

text \<open>\<^verbatim>\<open>JSON.parse\<close>, and what reading a property of the parsed value gives.\<close>

definition JSON_parse :: "file_text \<Rightarrow> error + json_doc" where
  "JSON_parse t = (case t of Garbage \<Rightarrow> Inl SyntaxError | JsonText d \<Rightarrow> Inr d)"

fun read_scalar :: "json_scalar \<Rightarrow> jsprim" where
  "read_scalar JAbsent = Undefined"
| "read_scalar JNull = Null"
| "read_scalar (JBool b) = Bool b"
| "read_scalar (JNumber x) = Num (Fin x)"

fun read_earnings :: "json_earnings_entry \<Rightarrow> earnings_ref" where
  "read_earnings JEAbsent = EUndefined"
| "read_earnings JENull = ENull"
| "read_earnings (JEObject e) =
     EObj \<lparr> total = read_scalar (j_total e), pending = read_scalar (j_pending e),
            paid = read_scalar (j_paid e) \<rparr>"

definition fs_readFile :: "string \<Rightarrow> world \<Rightarrow> error + file_text" where
  "fs_readFile path w =
     (case files w path of NoFile \<Rightarrow> Inl IOError | Unreadable \<Rightarrow> Inl IOError | Text t \<Rightarrow> Inr t)"

definition fs_writeFile :: "string \<Rightarrow> file_text \<Rightarrow> world \<Rightarrow> error + world" where
  "fs_writeFile path t w =
     (if read_only w path then Inl IOError else Inr (w\<lparr>files := (files w)(path := Text t)\<rparr>))"

text \<open>
  \<^verbatim>\<open>loadSession()\<close>: any exception (the file cannot be read, the text is not JSON,
  the parsed value is \<^verbatim>\<open>null\<close> so that reading \<^verbatim>\<open>session.startTime\<close> throws)
  gives \<^verbatim>\<open>false\<close>. Every other parsed value is taken over, and the result is
  \<^verbatim>\<open>true\<close>.
\<close>

definition loadSession :: "bot \<Rightarrow> world \<Rightarrow> bool \<times> bot \<times> event list" where
  "loadSession b w =
     (case fs_readFile (sessionFile b) w of
        Inl err \<Rightarrow> (False, b, [])
      | Inr t \<Rightarrow>
          (case JSON_parse t of
             Inl err \<Rightarrow> (False, b, [])
           | Inr JDocNull \<Rightarrow> (False, b, [])
           | Inr JDocOther \<Rightarrow>
               (True,
                b\<lparr>miningState := (miningState b)\<lparr>startTime := Undefined\<rparr>,
                  currentEarnings := EUndefined,
                  referralBonus := Undefined\<rparr>,
                [Console SessionLoaded])
           | Inr (JDocObject session) \<Rightarrow>
               (True,
                b\<lparr>miningState := (miningState b)\<lparr>startTime := read_scalar (j_startTime session)\<rparr>,
                  currentEarnings := read_earnings (j_earnings session),
                  referralBonus := read_scalar (j_referralBonus session)\<rparr>,
                [Console SessionLoaded])))"

text \<open>\<^verbatim>\<open>saveSession()\<close>: a failed write is reported on the console and nothing else.\<close>

definition saveSession :: "bot \<Rightarrow> world \<Rightarrow> world \<times> event list" where
  "saveSession b w =
     (let sessionData = \<lparr> sd_startTime = startTime (miningState b),
                           sd_earnings = currentEarnings b,
                           sd_referralBonus = referralBonus b \<rparr>
      in case fs_writeFile (sessionFile b) (JSON_stringify sessionData) w of
           Inr w' \<Rightarrow> (w', [])
         | Inl err \<Rightarrow> (w, [Console SaveFailed]))"

subsection \<open>The retry wrapper\<close>

text \<open>
  \<^verbatim>\<open>retryRequest(requestFn, operationName, retries = 3)\<close>. The request function is any
  function on a state \<open>'s\<close> that fails (\<open>Inl\<close>) or returns (\<open>Inr\<close>). The loop
  \<^verbatim>\<open>for (let i = 0; i < retries; i++)\<close> is the recursion on \<open>i\<close>; inside
  the loop \<open>retries\<close> is positive. When the loop ends without a call (\<open>retries = 0\<close>)
  the function returns \<^verbatim>\<open>undefined\<close>, here \<open>Inr None\<close>. Each call of the request
  function is written to the events as \<open>Request\<close>.
\<close>

function retryRequest_from ::
  "nat \<Rightarrow> ('s \<Rightarrow> (error + 'a) \<times> 's) \<Rightarrow> string \<Rightarrow> nat \<Rightarrow> 's
     \<Rightarrow> (error + 'a option) \<times> 's \<times> event list" where
  "retryRequest_from i requestFn operationName retries s =
     (if i < retries then
        (case requestFn s of
           (Inr r, s') \<Rightarrow> (Inr (Some r), s', [Request operationName])
         | (Inl err, s') \<Rightarrow>
             if i = retries - 1 then (Inl err, s', [Request operationName])
             else
               (case retryRequest_from (i + 1) requestFn operationName retries s' of
                  (res, s'', evs) \<Rightarrow>
                    (res, s'',
                     [Request operationName,
                      Console (Retrying operationName (i + 1) retries),
                      Sleep (2000 * (i + 1))] @ evs)))
      else (Inr None, s, []))"
  by pat_completeness auto
termination
  by (relation "measure (\<lambda>(i, requestFn, operationName, retries, s). retries - i)") auto

definition retryRequest ::
  "('s \<Rightarrow> (error + 'a) \<times> 's) \<Rightarrow> string \<Rightarrow> nat \<Rightarrow> 's \<Rightarrow> (error + 'a option) \<times> 's \<times> event list" where
  "retryRequest requestFn operationName retries s =
     retryRequest_from 0 requestFn operationName retries s"

subsection \<open>Accrual and the balance update\<close>

text \<open>
  \<^verbatim>\<open>calculateEarnings()\<close>; \<open>now\<close> is the value of \<^verbatim>\<open>Date.now()\<close>, in
  milliseconds.
\<close>

definition calculateEarnings :: "real \<Rightarrow> bot \<Rightarrow> jsnum \<times> event list" where
  "calculateEarnings now b =
     (if \<not> truthy (startTime (miningState b)) then (Fin 0, [Console MissingStartTime])
      else
        let timeElapsed =
              num_div (num_sub (Fin now) (ToNumber (startTime (miningState b)))) (Fin 1000)
        in (num_mul (num_mul (num_mul (hashrate (stats b)) timeElapsed) (Fin 0.0001))
                    (ToNumber (js_add (Num (Fin 1)) (referralBonus b))),
            []))"

text \<open>
  \<^verbatim>\<open>logStatus(final)\<close> prints one status block. It calls \<^verbatim>\<open>toFixed\<close> on the
  three fields of the snapshot, which throws a TypeError on a field that is not a number.
\<close>

definition logStatus :: "bool \<Rightarrow> bot \<Rightarrow> error + event" where
  "logStatus final b =
     (case currentEarnings b of
        EObj e \<Rightarrow>
          (case (total e, pending e, paid e) of
             (Num t, Num p, Num d) \<Rightarrow> Inr (Console (Status final))
           | _ \<Rightarrow> Inl TypeError)
      | _ \<Rightarrow> Inl TypeError)"

text \<open>The \<^verbatim>\<open>catch\<close> block of \<^verbatim>\<open>updateBalance\<close>: one console line, by the kind of error.\<close>

definition update_catch :: "error \<Rightarrow> event" where
  "update_catch err =
     (case err of HttpError status \<Rightarrow> Console (ApiError status) | _ \<Rightarrow> Console (UpdateFailed err))"

text \<open>
  \<^verbatim>\<open>updateBalance(finalUpdate = false)\<close>. Both call sites of \<^verbatim>\<open>retryRequest\<close>
  leave \<^verbatim>\<open>retries\<close> at its default, 3. Reading \<^verbatim>\<open>this.currentEarnings.total\<close>
  for the payload throws when the snapshot is \<^verbatim>\<open>undefined\<close> or \<^verbatim>\<open>null\<close>; like
  every exception in the body it ends in the \<^verbatim>\<open>catch\<close> block.
\<close>

definition updateBalance :: "bool \<Rightarrow> real \<Rightarrow> bot \<Rightarrow> world \<Rightarrow> bot \<times> world \<times> event list" where
  "updateBalance finalUpdate now b w =
     (case calculateEarnings now b of (newEarnings, ev0) \<Rightarrow>
        if \<not> validateEarnings (Prim (Num newEarnings)) then
          (b, w, ev0 @ [Console InvalidEarnings])
        else
          (case currentEarnings b of
             EUndefined \<Rightarrow> (b, w, ev0 @ [update_catch TypeError])
           | ENull \<Rightarrow> (b, w, ev0 @ [update_catch TypeError])
           | EObj current \<Rightarrow>
               let payload =
                     \<lparr> p_wallet = wallet b,
                       p_earnings =
                         \<lparr> total = js_add (total current) (Num newEarnings),
                           pending = (if finalUpdate then Num (Fin 0) else Num newEarnings),
                           paid = (if finalUpdate then js_add (paid current) (Num newEarnings)
                                   else paid current) \<rparr> \<rparr>
               in
                 (case retryRequest (api_post ''/update-balance'' payload) ''Balance update'' 3 w of
                    (Inl err, w1, ev1) \<Rightarrow> (b, w1, ev0 @ ev1 @ [update_catch err])
                  | (Inr None, w1, ev1) \<Rightarrow> (b, w1, ev0 @ ev1 @ [update_catch TypeError])
                  | (Inr (Some response), w1, ev1) \<Rightarrow>
                      (case data response of
                         None \<Rightarrow> (b, w1, ev0 @ ev1 @ [update_catch TypeError])
                       | Some d \<Rightarrow>
                           if truthy (success d) then
                             let b1 = b\<lparr>currentEarnings :=
                                        EObj \<lparr> total = balance d,
                                               pending = (if finalUpdate then Num (Fin 0)
                                                          else Num newEarnings),
                                               paid = (if finalUpdate
                                                       then js_add (paid current) (Num newEarnings)
                                                       else paid current) \<rparr>\<rparr>
                             in
                               (case saveSession b1 w1 of (w2, ev2) \<Rightarrow>
                                  (b1, w2,
                                   ev0 @ ev1 @ ev2 @
                                   [case logStatus finalUpdate b1 of
                                      Inr line \<Rightarrow> line
                                    | Inl err \<Rightarrow> update_catch err]))
                           else (b, w1, ev0 @ ev1 @ [Console UpdateRejected])))))"

subsection \<open>Start, loop and stop of a bot\<close>

definition init_catch :: "error \<Rightarrow> event" where
  "init_catch err =
     (case err of HttpError status \<Rightarrow> Console (InitError status) | _ \<Rightarrow> Console (InitFailed err))"

text \<open>
  \<^verbatim>\<open>initialize()\<close>, up to the point where it enters \<^verbatim>\<open>startMiningLoop()\<close>; the
  loop only ends once the bot has been stopped. \<open>now\<close> is the value of
  \<^verbatim>\<open>Date.now()\<close> when the start time is set.
\<close>

definition initialize :: "real \<Rightarrow> bot \<Rightarrow> world \<Rightarrow> bot \<times> world \<times> event list" where
  "initialize now b w =
     (case retryRequest (api_get (''/check-registration?wallet='' @ wallet b))
             ''Registration check'' 3 w of
        (Inl err, w1, ev1) \<Rightarrow> (b, w1, ev1 @ [init_catch err])
      | (Inr None, w1, ev1) \<Rightarrow> (b, w1, ev1 @ [init_catch TypeError])
      | (Inr (Some regResponse), w1, ev1) \<Rightarrow>
          (case data regResponse of
             None \<Rightarrow> (b, w1, ev1 @ [init_catch TypeError])
           | Some d \<Rightarrow>
               if \<not> truthy (isRegistered d) then (b, w1, ev1 @ [init_catch NotRegistered])
               else
                 (case loadSession b w1 of (hasSession, b1, ev2) \<Rightarrow>
                    if \<not> hasSession then
                      (case userData d of
                         None \<Rightarrow> (b1, w1, ev1 @ ev2 @ [init_catch TypeError])
                       | Some u \<Rightarrow>
                           let bonus = js_or (ud_referralBonus u) (Num (Fin 0));
                               b2 = b1\<lparr>referralBonus := bonus,
                                      currentEarnings :=
                                        EObj \<lparr> total = bonus, pending = Num (Fin 0),
                                               paid = Num (Fin 0) \<rparr>,
                                      miningState :=
                                        (miningState b1)\<lparr>startTime := Num (Fin now)\<rparr>\<rparr>
                           in (b2\<lparr>miningState := (miningState b2)\<lparr>isActive := True\<rparr>\<rparr>, w1,
                               ev1 @ ev2 @ [Console (MiningStarted False)]))
                    else
                      let b2 = (if \<not> truthy (startTime (miningState b1))
                                then b1\<lparr>miningState :=
                                          (miningState b1)\<lparr>startTime := Num (Fin now)\<rparr>\<rparr>
                                else b1)
                      in (b2\<lparr>miningState := (miningState b2)\<lparr>isActive := True\<rparr>\<rparr>, w1,
                          ev1 @ ev2 @ [Console (MiningStarted True)]))))"



section \<open>The coordinator\<close>

record coordinator =
  bots :: "bot list"
  totalPaid :: jsnum
  isRunning :: bool

text \<open>
  The constructor with the static field \<^verbatim>\<open>instance\<close>: the object that
  \<^verbatim>\<open>new MiningCoordinator()\<close> evaluates to, given the instance so far.
\<close>

definition MiningCoordinator :: "coordinator option \<Rightarrow> coordinator" where
  "MiningCoordinator inst =
     (case inst of
        Some c \<Rightarrow> c
      | None \<Rightarrow> \<lparr> bots = [], totalPaid = Fin 0, isRunning = False \<rparr>)"

text \<open>
  Text is a list of code units below 256. \<^verbatim>\<open>trim()\<close> removes the white space and
  line terminators of ECMAScript from both ends; in this range they are tab, line feed,
  vertical tab, form feed, carriage return, space and no-break space.
\<close>

definition is_whitespace :: "char \<Rightarrow> bool" where
  "is_whitespace c = ((of_char c :: nat) \<in> {9, 10, 11, 12, 13, 32, 160})"

definition trim :: "string \<Rightarrow> string" where
  "trim s = rev (dropWhile is_whitespace (rev (dropWhile is_whitespace s)))"

text \<open>\<^verbatim>\<open>data.split('\n')\<close>: the pieces between line feeds; one more piece than line feeds.\<close>

fun split_newline :: "string \<Rightarrow> string list" where
  "split_newline [] = [[]]"
| "split_newline (c # cs) =
     (if c = CHR 0x0A then [] # split_newline cs
      else (case split_newline cs of
              piece # pieces \<Rightarrow> (c # piece) # pieces
            | [] \<Rightarrow> [[c]]))"

text \<open>The test of the regular expression \<^verbatim>\<open>/^0x[a-fA-F0-9]{40}$/\<close>.\<close>

definition is_hex :: "char \<Rightarrow> bool" where
  "is_hex c = (c \<in> set (''abcdef'' @ ''ABCDEF'' @ ''0123456789''))"

definition wallet_regex_test :: "string \<Rightarrow> bool" where
  "wallet_regex_test line =
     (case line of
        c0 # cx # rest \<Rightarrow> c0 = CHR ''0'' \<and> cx = CHR ''x'' \<and> length rest = 40 \<and> list_all is_hex rest
      | _ \<Rightarrow> False)"

text \<open>
  \<^verbatim>\<open>loadWallets()\<close>; the argument is the content of \<^verbatim>\<open>wallets.txt\<close>, \<open>None\<close>
  when reading the file throws.
\<close>

definition loadWallets :: "string option \<Rightarrow> string list \<times> event list" where
  "loadWallets wallets_txt =
     (case wallets_txt of
        None \<Rightarrow> ([], [Console ErrorLoadingWallets])
      | Some content \<Rightarrow> (filter wallet_regex_test (map trim (split_newline content)), []))"

text \<open>
  \<^verbatim>\<open>start()\<close>. Each bot's \<^verbatim>\<open>initialize()\<close> is started and not awaited (the
  event \<open>Initialize\<close> with the bot's index); the bots then run on their own. The
  handler for the interrupt signal is installed last and is not part of the model.
\<close>

definition start :: "string option \<Rightarrow> coordinator \<Rightarrow> coordinator \<times> event list" where
  "start wallets_txt c =
     (if isRunning c then (c, [Console AlreadyRunning])
      else
        let c1 = c\<lparr>isRunning := True\<rparr> in
        case loadWallets wallets_txt of (wallets, ev) \<Rightarrow>
          if length wallets = 0 then (c1, [Console Banner] @ ev @ [Console NoValidWallets])
          else
            (c1\<lparr>bots := map (\<lambda>(index, address). KaleidoMiningBot address (index + 1))
                           (enumerate 0 wallets)\<rparr>,
             [Console Banner] @ ev @ [Console (LoadedWallets (length wallets))] @
             map (\<lambda>(index, address). Initialize (index + 1)) (enumerate 0 wallets)))"

text \<open>Calls of \<^verbatim>\<open>start()\<close> one after the other, each with the file as it is then.\<close>

fun starts :: "string option list \<Rightarrow> coordinator \<Rightarrow> coordinator \<times> event list" where
  "starts [] c = (c, [])"
| "starts (f # fs) c =
     (case start f c of (c1, ev1) \<Rightarrow>
        (case starts fs c1 of (c2, ev2) \<Rightarrow> (c2, ev1 @ ev2)))"

section \<open>Observations on a run\<close>

text \<open>
  How often a request function was called, and the timer waits, read off the events; the
  state of a request function after \<open>k\<close> calls, and that its first \<open>n\<close> calls
  fail; the events of a run of the retry wrapper from round \<open>i\<close> in which every call
  fails.
\<close>

definition request_count :: "event list \<Rightarrow> nat" where
  "request_count evs = length (filter (\<lambda>e. case e of Request name \<Rightarrow> True | _ \<Rightarrow> False) evs)"

definition delays :: "event list \<Rightarrow> nat list" where
  "delays evs = concat (map (\<lambda>e. case e of Sleep d \<Rightarrow> [d] | _ \<Rightarrow> []) evs)"

definition state_after :: "nat \<Rightarrow> ('s \<Rightarrow> (error + 'a) \<times> 's) \<Rightarrow> 's \<Rightarrow> 's" where
  "state_after k requestFn s = ((\<lambda>s. snd (requestFn s)) ^^ k) s"

definition fails_on_calls :: "nat \<Rightarrow> ('s \<Rightarrow> (error + 'a) \<times> 's) \<Rightarrow> 's \<Rightarrow> bool" where
  "fails_on_calls n requestFn s = (\<forall>k<n. isl (fst (requestFn (state_after k requestFn s))))"

definition failing_trace :: "string \<Rightarrow> nat \<Rightarrow> nat \<Rightarrow> event list" where
  "failing_trace name retries i =
     concat (map (\<lambda>k. [Request name, Console (Retrying name (k + 1) retries), Sleep (2000 * (k + 1))])
               [i..<retries - 1]) @ [Request name]"

text \<open>
  A value that JSON can hold: not NaN and not an infinity. A bot without a session on
  disk: the file is missing or unreadable, its text is no JSON, or it is the JSON
  \<^verbatim>\<open>null\<close>. A server that fails the three attempts of an update: the next three
  replies, as far as there are any, are errors.
\<close>

fun representable :: "jsprim \<Rightarrow> bool" where
  "representable (Num (Fin x)) = True"
| "representable (Num n) = False"
| "representable v = True"





section \<open>Sample inputs\<close>

text \<open>A bot whose start time lies four seconds after the clock reading 1000.\<close>

definition future_bot :: bot where
  "future_bot =
     KaleidoMiningBot ''w'' 1
       \<lparr>miningState := \<lparr> isActive = True, worker = ''quantum-rig-1'', pool = ''quantum-1'',
                          startTime = Num (Fin 5000) \<rparr>\<rparr>"

text \<open>A bot that started at the clock reading 1000, with a referral bonus of a tenth.\<close>

definition running_bot :: bot where
  "running_bot =
     KaleidoMiningBot ''w'' 1
       \<lparr>miningState := \<lparr> isActive = True, worker = ''quantum-rig-1'', pool = ''quantum-1'',
                          startTime = Num (Fin 1000) \<rparr>,
        referralBonus := Num (Fin 0.1)\<rparr>"

text \<open>A world whose server accepts the next update and answers with the balance 1.\<close>

definition accepting_world :: world where
  "accepting_world =
     \<lparr> registration_replies = [],
       update_replies = [Inr \<lparr> data = Some \<lparr> success = Bool True, balance = Num (Fin 1) \<rparr> \<rparr>],
       requests = [],
       files = (\<lambda>path. NoFile),
       read_only = (\<lambda>path. False) \<rparr>"





text \<open>
  Two request functions on a counter: one fails on its first two calls and then returns
  the counter, the other fails on every call.
\<close>

definition fails_twice :: "nat \<Rightarrow> (error + nat) \<times> nat" where
  "fails_twice s = (if s < 2 then Inl (HttpError (500 + s)) else Inr s, Suc s)"

definition fails_ever :: "nat \<Rightarrow> (error + nat) \<times> nat" where
  "fails_ever s = (Inl (HttpError (500 + s)), Suc s)"

text \<open>
  A wallet file of two lines: "0x" with 39 hexadecimal digits, and "0x" with 40, the
  second line ended by carriage return and line feed.
\<close>

definition short_line :: string where
  "short_line = ''0xaaaaaaaaaaaaaaaaaaaaaaaaaaaaaaaaaaaaaaa''"

definition valid_line :: string where
  "valid_line = ''0xBBBBBBBBBBBBBBBBBBBBBBBBBBBBBBBBBBBBBBBB''"

definition two_lines :: string where
  "two_lines = short_line @ [CHR 0x0A] @ valid_line @ [CHR 0x0D, CHR 0x0A]"

section \<open>Properties\<close>

subsection \<open>Validation\<close>

lemma typeof_number: "typeof v = ''number'' \<longleftrightarrow> (\<exists>n. v = Prim (Num n))"
proof (cases v)
  case (Prim p)
  then show ?thesis by (cases p) simp_all
qed simp_all

lemma validateEarnings_number:
  "validateEarnings (Prim (Num n)) \<longleftrightarrow> (\<exists>x. n = Fin x \<and> 0 \<le> x)"
  by (cases n) (simp_all add: validateEarnings_def)

lemma validateEarnings_other: "\<nexists>n. v = Prim (Num n) \<Longrightarrow> \<not> validateEarnings v"
  using typeof_number [of v] by (simp add: validateEarnings_def)

text \<open>
  Claim C4. The validation predicate accepts a value exactly when it is a number that is
  not NaN, is finite and is at least zero. So it accepts zero and every positive finite
  number, and it rejects NaN, every negative number, both infinities and everything that
  is not a number.
\<close>

theorem validateEarnings_iff:
  "(validateEarnings v \<longleftrightarrow> (\<exists>x. v = Prim (Num (Fin x)) \<and> 0 \<le> x))
   \<and> validateEarnings (Prim (Num (Fin 0)))
   \<and> (\<forall>x. 0 < x \<longrightarrow> validateEarnings (Prim (Num (Fin x))))
   \<and> \<not> validateEarnings (Prim (Num NaN))
   \<and> (\<forall>x. x < 0 \<longrightarrow> \<not> validateEarnings (Prim (Num (Fin x))))
   \<and> \<not> validateEarnings (Prim (Num PInf))
   \<and> \<not> validateEarnings (Prim (Num NInf))
   \<and> \<not> validateEarnings (Prim Undefined)
   \<and> \<not> validateEarnings (Prim Null)
   \<and> \<not> validateEarnings (Prim (Bool b))
   \<and> \<not> validateEarnings (Str s)
   \<and> \<not> validateEarnings Object"
proof -
  note number = validateEarnings_number and other = validateEarnings_other
  have "validateEarnings v \<longleftrightarrow> (\<exists>x. v = Prim (Num (Fin x)) \<and> 0 \<le> x)"
  proof (cases "\<exists>n. v = Prim (Num n)")
    case True
    then show ?thesis using number by auto
  next
    case False
    then show ?thesis using other by auto
  qed
  then show ?thesis
    by (simp add: number other)
qed

theorem validateEarnings_iff_witness:
  "validateEarnings (Prim (Num (Fin 3))) \<and> \<not> validateEarnings (Prim (Num (Fin (- 3))))"
  using validateEarnings_iff [of "Prim (Num (Fin 3))" True "''3''"] by simp

subsection \<open>Accrual\<close>

text \<open>
  The code takes every falsy start time for a missing one: \<^verbatim>\<open>null\<close>, but also 0 and
  NaN. A bot that \<^verbatim>\<open>initialize\<close> has activated has a truthy start time, as long as
  the clock does not read 0: a falsy start time from a session file is replaced.
\<close>

lemma loadSession_isActive:
  "loadSession b w = (hasSession, b1, ev) \<Longrightarrow> isActive (miningState b1) = isActive (miningState b)"
  by (auto simp: loadSession_def split: sum.splits json_doc.splits)

lemma initialize_startTime:
  assumes "now \<noteq> 0" and "\<not> isActive (miningState b)"
    and "isActive (miningState (fst (initialize now b w)))"
  shows "truthy (startTime (miningState (fst (initialize now b w))))"
proof -
  obtain res w1 ev1 where run:
    "retryRequest (api_get (''/check-registration?wallet='' @ wallet b)) ''Registration check'' 3 w
       = (res, w1, ev1)"
    using prod_cases3 by blast
  obtain hasSession b1 ev2 where load: "loadSession b w1 = (hasSession, b1, ev2)"
    using prod_cases3 by blast
  note inactive = loadSession_isActive [OF load]
  show ?thesis
  proof (cases res)
    case (Inl err)
    with run assms show ?thesis by (simp add: initialize_def)
  next
    case (Inr returned)
    show ?thesis
    proof (cases returned)
      case None
      with Inr run assms show ?thesis by (simp add: initialize_def)
    next
      case (Some regResponse)
      show ?thesis
      proof (cases "data regResponse")
        case None
        with Some Inr run assms show ?thesis by (simp add: initialize_def)
      next
        case (Some d)
        with \<open>returned = Some regResponse\<close> Inr run load assms inactive show ?thesis
          by (cases "truthy (isRegistered d)"; cases hasSession; cases "userData d")
            (simp_all add: initialize_def Let_def)
      qed
    qed
  qed
qed



subsection \<open>An increment that fails the validation\<close>

lemma invalid_no_warning:
  "\<not> validateEarnings (Prim (Num (fst (calculateEarnings now b)))) \<Longrightarrow>
   snd (calculateEarnings now b) = []"
  by (auto simp: calculateEarnings_def validateEarnings_def split: if_splits)

text \<open>
  Claim C5. When the computed increment fails the validation, the balance update ends
  there: the bot and the world (the server's replies, the requests sent, the files) are
  what they were, no request function is called, no timer is set, and the one event is
  the console line about the invalid value.
\<close>

theorem updateBalance_invalid:
  assumes "\<not> validateEarnings (Prim (Num (fst (calculateEarnings now b))))"
  shows "updateBalance finalUpdate now b w = (b, w, [Console InvalidEarnings])"
proof (cases "calculateEarnings now b")
  case (Pair newEarnings ev0)
  with assms invalid_no_warning [OF assms] show ?thesis
    by (simp add: updateBalance_def)
qed

theorem updateBalance_invalid_witness:
  "\<not> validateEarnings (Prim (Num (fst (calculateEarnings 1000 future_bot))))
   \<and> updateBalance False 1000 future_bot accepting_world
       = (future_bot, accepting_world, [Console InvalidEarnings])"
proof -
  have h: "\<not> validateEarnings (Prim (Num (fst (calculateEarnings 1000 future_bot))))"
    by (simp add: calculateEarnings_def future_bot_def KaleidoMiningBot_def js_add_def
        num_sub_def validateEarnings_def)
  show ?thesis
    using h updateBalance_invalid [OF h, of False accepting_world] by simp
qed

subsection \<open>The retry wrapper\<close>

lemma retry_returns:
  "i < retries \<Longrightarrow> requestFn s = (Inr r, s') \<Longrightarrow>
   retryRequest_from i requestFn name retries s = (Inr (Some r), s', [Request name])"
  by (subst retryRequest_from.simps) simp

lemma retry_throws:
  "i < retries \<Longrightarrow> requestFn s = (Inl e, s') \<Longrightarrow> i = retries - 1 \<Longrightarrow>
   retryRequest_from i requestFn name retries s = (Inl e, s', [Request name])"
  by (subst retryRequest_from.simps) simp

lemma retry_again:
  "i < retries \<Longrightarrow> requestFn s = (Inl e, s') \<Longrightarrow> i \<noteq> retries - 1 \<Longrightarrow>
   retryRequest_from i requestFn name retries s =
     (case retryRequest_from (i + 1) requestFn name retries s' of
        (res, s'', evs) \<Rightarrow>
          (res, s'',
           [Request name, Console (Retrying name (i + 1) retries), Sleep (2000 * (i + 1))] @ evs))"
  by (subst retryRequest_from.simps) simp

lemma state_after_Suc:
  "state_after (Suc m) requestFn s = state_after m requestFn (snd (requestFn s))"
  by (simp add: state_after_def funpow_Suc_right del: funpow.simps)

lemma retry_always_fails:
  "i < retries \<Longrightarrow> fails_on_calls (retries - i) requestFn s \<Longrightarrow>
    retryRequest_from i requestFn name retries s =
      (Inl (projl (fst (requestFn (state_after (retries - 1 - i) requestFn s)))),
       state_after (retries - i) requestFn s,
       failing_trace name retries i)"
proof (induction "retries - 1 - i" arbitrary: i s)
  case 0
  then have last: "i = retries - 1" by simp
  from "0.prems" have "isl (fst (requestFn s))"
    by (auto simp: fails_on_calls_def state_after_def dest: spec [of _ 0])
  then obtain e s' where call: "requestFn s = (Inl e, s')"
    by (metis isl_def prod.collapse)
  have run: "retryRequest_from i requestFn name retries s = (Inl e, s', [Request name])"
    using "0.prems"(1) call last by (rule retry_throws)
  from 0 last have "retries - i = 1" by simp
  with run last call show ?case
    by (simp add: state_after_def failing_trace_def)
next
  case (Suc k)
  then have more: "i \<noteq> retries - 1" and next_ok: "i + 1 < retries" and k: "k = retries - 1 - (i + 1)"
    by simp_all
  from Suc.prems have "isl (fst (requestFn s))"
    by (auto simp: fails_on_calls_def state_after_def dest: spec [of _ 0])
  then obtain e s' where call: "requestFn s = (Inl e, s')"
    by (metis isl_def prod.collapse)
  have shift: "state_after (Suc m) requestFn s = state_after m requestFn s'" for m
    using call by (simp add: state_after_Suc)
  have rest: "fails_on_calls (retries - (i + 1)) requestFn s'"
    unfolding fails_on_calls_def
  proof (intro allI impI)
    fix j assume "j < retries - (i + 1)"
    then have "Suc j < retries - i" by simp
    with Suc.prems(2) have "isl (fst (requestFn (state_after (Suc j) requestFn s)))"
      unfolding fails_on_calls_def by blast
    then show "isl (fst (requestFn (state_after j requestFn s')))"
      by (simp add: shift)
  qed
  have "retries - 1 - i = Suc (retries - 1 - (i + 1))" "retries - i = Suc (retries - (i + 1))"
    using Suc.hyps(2) next_ok by simp_all
  moreover have "failing_trace name retries i =
      [Request name, Console (Retrying name (i + 1) retries), Sleep (2000 * (i + 1))]
        @ failing_trace name retries (i + 1)"
    using next_ok by (simp add: failing_trace_def upt_conv_Cons)
  moreover have "retryRequest_from i requestFn name retries s =
     (case retryRequest_from (i + 1) requestFn name retries s' of
        (res, s'', evs) \<Rightarrow>
          (res, s'',
           [Request name, Console (Retrying name (i + 1) retries), Sleep (2000 * (i + 1))] @ evs))"
    using Suc.prems(1) call more by (rule retry_again)
  ultimately show ?case
    using Suc.hyps(1) [OF k next_ok rest] shift
    by simp
qed

lemma request_count_failing:
  "i < retries \<Longrightarrow> request_count (failing_trace name retries i) = retries - i"
proof (induction "retries - 1 - i" arbitrary: i)
  case 0
  then show ?case by (simp add: failing_trace_def request_count_def)
next
  case (Suc k)
  then have "i + 1 < retries" "k = retries - 1 - (i + 1)" by simp_all
  moreover from this have "failing_trace name retries i =
      [Request name, Console (Retrying name (i + 1) retries), Sleep (2000 * (i + 1))]
        @ failing_trace name retries (i + 1)"
    by (simp add: failing_trace_def upt_conv_Cons)
  ultimately show ?case
    using Suc.hyps(1) [of "i + 1"] by (simp add: request_count_def)
qed

lemma delays_failing:
  "i < retries \<Longrightarrow> delays (failing_trace name retries i) = map (\<lambda>k. 2000 * (k + 1)) [i..<retries - 1]"
proof (induction "retries - 1 - i" arbitrary: i)
  case 0
  then show ?case by (simp add: failing_trace_def delays_def)
next
  case (Suc k)
  then have "i + 1 < retries" "k = retries - 1 - (i + 1)" by simp_all
  moreover from this have "failing_trace name retries i =
      [Request name, Console (Retrying name (i + 1) retries), Sleep (2000 * (i + 1))]
        @ failing_trace name retries (i + 1)"
    by (simp add: failing_trace_def upt_conv_Cons)
  ultimately show ?case
    using Suc.hyps(1) [of "i + 1"] by (simp add: delays_def upt_conv_Cons)
qed

lemma delays_increasing: "sorted_wrt (<) (map (\<lambda>k. 2000 * (k + 1)) [i..<n :: nat])"
  by (simp add: sorted_wrt_map sorted_wrt_upt)

text \<open>
  Claim C6. A request function that fails on its first two calls and returns on the third
  is called exactly three times by the wrapper with three attempts, with waits of 2000
  and then 4000 milliseconds between the calls, and the wrapper returns its result. A
  request function of which the first \<open>n \<ge> 1\<close> calls fail is called exactly \<open>n\<close>
  times by the wrapper with \<open>n\<close> attempts, with the strictly increasing waits
  \<open>2000 * 1, \<dots>, 2000 * (n - 1)\<close>, and the error of the last call is thrown.
\<close>

theorem retryRequest_retries:
  "(requestFn s0 = (Inl e1, s1) \<and> requestFn s1 = (Inl e2, s2) \<and> requestFn s2 = (Inr r, s3)
      \<longrightarrow> retryRequest requestFn name 3 s0 =
            (Inr (Some r), s3,
             [Request name, Console (Retrying name 1 3), Sleep 2000,
              Request name, Console (Retrying name 2 3), Sleep 4000,
              Request name])
          \<and> request_count (snd (snd (retryRequest requestFn name 3 s0))) = 3
          \<and> delays (snd (snd (retryRequest requestFn name 3 s0))) = [2000, 4000])
   \<and> (1 \<le> n \<and> fails_on_calls n requestFn s0
      \<longrightarrow> (\<exists>e evs. retryRequest requestFn name n s0 = (Inl e, state_after n requestFn s0, evs)
            \<and> fst (requestFn (state_after (n - 1) requestFn s0)) = Inl e
            \<and> request_count evs = n
            \<and> delays evs = map (\<lambda>k. 2000 * (k + 1)) [0..<n - 1]
            \<and> sorted_wrt (<) (delays evs)))"
proof (intro conjI impI)
  assume h: "requestFn s0 = (Inl e1, s1) \<and> requestFn s1 = (Inl e2, s2) \<and> requestFn s2 = (Inr r, s3)"
  have third: "retryRequest_from 2 requestFn name 3 s2 = (Inr (Some r), s3, [Request name])"
    using h by (simp add: retry_returns)
  have second: "retryRequest_from 1 requestFn name 3 s1 =
      (Inr (Some r), s3, [Request name, Console (Retrying name 2 3), Sleep 4000, Request name])"
    using h third retry_again [of 1 3 requestFn s1 e2 s2 name] by (simp add: numeral_2_eq_2)
  show run: "retryRequest requestFn name 3 s0 =
            (Inr (Some r), s3,
             [Request name, Console (Retrying name 1 3), Sleep 2000,
              Request name, Console (Retrying name 2 3), Sleep 4000,
              Request name])"
    using h second retry_again [of 0 3 requestFn s0 e1 s1 name] by (simp add: retryRequest_def)
  show "request_count (snd (snd (retryRequest requestFn name 3 s0))) = 3"
    by (simp add: run request_count_def)
  show "delays (snd (snd (retryRequest requestFn name 3 s0))) = [2000, 4000]"
    by (simp add: run delays_def)
next
  assume h: "1 \<le> n \<and> fails_on_calls n requestFn s0"
  then have n: "0 < n" and fails: "fails_on_calls (n - 0) requestFn s0"
    by simp_all
  have last: "isl (fst (requestFn (state_after (n - 1) requestFn s0)))"
    using h by (simp add: fails_on_calls_def)
  have "retryRequest requestFn name n s0 =
      (Inl (projl (fst (requestFn (state_after (n - 1) requestFn s0)))),
       state_after n requestFn s0, failing_trace name n 0)"
    using retry_always_fails [OF n fails, of name] by (simp add: retryRequest_def)
  moreover have "fst (requestFn (state_after (n - 1) requestFn s0))
      = Inl (projl (fst (requestFn (state_after (n - 1) requestFn s0))))"
    using last by simp
  ultimately show "\<exists>e evs. retryRequest requestFn name n s0 = (Inl e, state_after n requestFn s0, evs)
            \<and> fst (requestFn (state_after (n - 1) requestFn s0)) = Inl e
            \<and> request_count evs = n
            \<and> delays evs = map (\<lambda>k. 2000 * (k + 1)) [0..<n - 1]
            \<and> sorted_wrt (<) (delays evs)"
    using n request_count_failing [OF n, of name] delays_failing [OF n, of name]
      delays_increasing [of 0 "n - 1"]
    by simp
qed

theorem retryRequest_retries_witness:
  "retryRequest fails_twice ''op'' 3 0 =
      (Inr (Some 2), 3,
       [Request ''op'', Console (Retrying ''op'' 1 3), Sleep 2000,
        Request ''op'', Console (Retrying ''op'' 2 3), Sleep 4000,
        Request ''op''])
   \<and> (\<exists>evs. retryRequest fails_ever ''op'' 4 0 = (Inl (HttpError 503), 4, evs)
        \<and> request_count evs = 4 \<and> delays evs = [2000, 4000, 6000])"
proof -
  have a: "fails_twice 0 = (Inl (HttpError 500), 1) \<and> fails_twice 1 = (Inl (HttpError 501), 2)
      \<and> fails_twice 2 = (Inr 2, 3)"
    by (simp add: fails_twice_def)
  have st: "state_after k fails_ever 0 = k" for k
    by (induction k) (simp_all add: state_after_def fails_ever_def)
  have b: "1 \<le> (4::nat) \<and> fails_on_calls 4 fails_ever 0"
    by (simp add: fails_on_calls_def fails_ever_def)
  have upt: "[0..<3] = [0, 1, 2::nat]"
    by (simp add: upt_conv_Cons)
  show ?thesis
    using retryRequest_retries [where requestFn = fails_twice and ?s0.0 = 0 and ?e1.0 = "HttpError 500"
        and ?s1.0 = 1 and ?e2.0 = "HttpError 501" and ?s2.0 = 2 and r = 2 and ?s3.0 = 3
        and name = "''op''" and n = 0]
      retryRequest_retries [where requestFn = fails_ever and ?s0.0 = 0 and name = "''op''" and n = 4]
      a b st
    by (auto simp: fails_ever_def upt)
qed

subsection \<open>A successful balance update\<close>

lemma api_post_reply:
  "update_replies w = reply # rest \<Longrightarrow>
   api_post url p w = (reply, w\<lparr>update_replies := rest, requests := requests w @ [Post url p]\<rparr>)"
  by (simp add: api_post_def)

lemma retry_post_reply:
  assumes "update_replies w = map Inl errs @ Inr r # rest" and "length errs < 3"
  shows "\<exists>w1 ev1. retryRequest (api_post url p) name 3 w = (Inr (Some r), w1, ev1)
           \<and> files w1 = files w \<and> read_only w1 = read_only w
           \<and> registration_replies w1 = registration_replies w \<and> update_replies w1 = rest
           \<and> requests w1 = requests w @ replicate (Suc (length errs)) (Post url p)
           \<and> request_count ev1 = Suc (length errs)"
proof -
  from assms(2) have "length errs = 0 \<or> length errs = Suc 0 \<or> length errs = Suc (Suc 0)"
    by arith
  then consider "errs = []" | e1 where "errs = [e1]" | e1 e2 where "errs = [e1, e2]"
    by (auto simp: length_Suc_conv)
  then show ?thesis
  proof cases
    case 1
    with assms(1) show ?thesis
      by (simp add: retryRequest_def retry_returns api_post_reply request_count_def)
  next
    case 2
    with assms(1) show ?thesis
      by (simp add: retryRequest_def retry_returns retry_again api_post_reply request_count_def)
  next
    case 3
    with assms(1) show ?thesis
      by (simp add: retryRequest_def retry_returns retry_again api_post_reply request_count_def)
  qed
qed

lemma updateBalance_synced:
  assumes "validateEarnings (Prim (Num (fst (calculateEarnings now b))))"
    and "currentEarnings b = EObj current"
    and "update_replies w = map Inl errs @ Inr response # rest" and "length errs < 3"
    and "data response = Some d" and "truthy (success d)"
  shows "fst (updateBalance finalUpdate now b w) =
     b\<lparr>currentEarnings :=
         EObj \<lparr> total = balance d,
                pending = (if finalUpdate then Num (Fin 0) else Num (fst (calculateEarnings now b))),
                paid = (if finalUpdate
                        then js_add (paid current) (Num (fst (calculateEarnings now b)))
                        else paid current) \<rparr>\<rparr>"
proof -
  obtain e ev0 where calc: "calculateEarnings now b = (e, ev0)"
    by (cases "calculateEarnings now b")
  obtain w1 ev1 where "retryRequest (api_post ''/update-balance''
        \<lparr> p_wallet = wallet b,
          p_earnings = \<lparr> total = js_add (total current) (Num e),
                         pending = (if finalUpdate then Num (Fin 0) else Num e),
                         paid = (if finalUpdate then js_add (paid current) (Num e) else paid current) \<rparr> \<rparr>)
        ''Balance update'' 3 w = (Inr (Some response), w1, ev1)"
    using retry_post_reply [OF assms(3,4)] by blast
  with assms calc show ?thesis
    by (simp add: updateBalance_def Let_def split: prod.splits)
qed

text \<open>
  Claim C1. The update-balance call succeeds when the increment is valid, the snapshot is
  an object, and the server, after fewer than three failed attempts, replies with a body
  whose \<^verbatim>\<open>success\<close> is truthy. Then the bot is as before but for the snapshot:
  its total is the balance of the reply; its pending is 0 on a final update and the
  increment otherwise; its paid is the old paid plus the increment on a final update and
  the old paid otherwise.
\<close>

theorem updateBalance_success:
  assumes "validateEarnings (Prim (Num (fst (calculateEarnings now b))))"
    and "currentEarnings b = EObj current"
    and "update_replies w = map Inl errs @ Inr response # rest" and "length errs < 3"
    and "data response = Some d" and "truthy (success d)"
  shows "fst (updateBalance finalUpdate now b w) =
     b\<lparr>currentEarnings :=
         EObj \<lparr> total = balance d,
                pending = (if finalUpdate then Num (Fin 0) else Num (fst (calculateEarnings now b))),
                paid = (if finalUpdate
                        then js_add (paid current) (Num (fst (calculateEarnings now b)))
                        else paid current) \<rparr>\<rparr>"
  using assms by (rule updateBalance_synced)

theorem updateBalance_success_witness:
  "fst (updateBalance True 31000 running_bot accepting_world) =
     running_bot\<lparr>currentEarnings :=
       EObj \<lparr> total = Num (Fin 1), pending = Num (Fin 0), paid = Num (Fin (4983 / 20000)) \<rparr>\<rparr>
   \<and> fst (updateBalance False 31000 running_bot accepting_world) =
     running_bot\<lparr>currentEarnings :=
       EObj \<lparr> total = Num (Fin 1), pending = Num (Fin (4983 / 20000)), paid = Num (Fin 0) \<rparr>\<rparr>"
proof -
  have e: "calculateEarnings 31000 running_bot = (Fin (4983 / 20000), [])"
    by (simp add: calculateEarnings_def running_bot_def KaleidoMiningBot_def js_add_def num_sub_def)
  have valid: "validateEarnings (Prim (Num (fst (calculateEarnings 31000 running_bot))))"
    by (simp add: e validateEarnings_def)
  have snapshot: "currentEarnings running_bot =
      EObj \<lparr> total = Num (Fin 0), pending = Num (Fin 0), paid = Num (Fin 0) \<rparr>"
    by (simp add: running_bot_def KaleidoMiningBot_def)
  have replies: "update_replies accepting_world =
      map Inl [] @ Inr \<lparr> data = Some \<lparr> success = Bool True, balance = Num (Fin 1) \<rparr> \<rparr> # []"
    by (simp add: accepting_world_def)
  show ?thesis
    using updateBalance_success [OF valid snapshot replies, of "\<lparr> success = Bool True, balance = Num (Fin 1) \<rparr>" True]
      updateBalance_success [OF valid snapshot replies, of "\<lparr> success = Bool True, balance = Num (Fin 1) \<rparr>" False]
    by (simp add: e js_add_def)
qed

subsection \<open>The snapshot after a successful update\<close>





subsection \<open>Session files\<close>



lemma read_stringify_scalar_iff: "read_scalar (stringify_scalar v) = v \<longleftrightarrow> representable v"
  by (induction v rule: representable.induct) simp_all

lemma loadSession_files: "files w' = files w \<Longrightarrow> loadSession b w' = loadSession b w"
  by (simp add: loadSession_def fs_readFile_def)









subsection \<open>Stopping a bot\<close>
















subsection \<open>The wallet list and the fleet\<close>







subsection \<open>A start without wallets\<close>

lemma starts_running:
  "isRunning c \<Longrightarrow> starts fs c = (c, replicate (length fs) (Console AlreadyRunning))"
  by (induction fs) (simp_all add: start_def)

text \<open>
  Claim C10. When \<^verbatim>\<open>start()\<close> on a new coordinator finds no valid wallet (the list
  is empty, or the file could not be read), it ends with the console line about it, the
  coordinator is marked as running and has no bots. Constructing the coordinator again
  gives this same object, and every later call of \<^verbatim>\<open>start()\<close>, whatever the file
  holds by then, only prints the warning that the coordinator is already running and
  leaves it as it is: without bots.
\<close>

theorem start_abort_sticks:
  assumes "fst (loadWallets f) = []"
  shows "isRunning (fst (start f (MiningCoordinator None)))
    \<and> bots (fst (start f (MiningCoordinator None))) = []
    \<and> last (snd (start f (MiningCoordinator None))) = Console NoValidWallets
    \<and> MiningCoordinator (Some (fst (start f (MiningCoordinator None)))) = fst (start f (MiningCoordinator None))
    \<and> starts fs (MiningCoordinator (Some (fst (start f (MiningCoordinator None)))))
        = (fst (start f (MiningCoordinator None)), replicate (length fs) (Console AlreadyRunning))"
proof -
  obtain ev where "loadWallets f = ([], ev)"
    using assms by (cases "loadWallets f") simp
  then have aborted: "start f (MiningCoordinator None) =
      (\<lparr> bots = [], totalPaid = Fin 0, isRunning = True \<rparr>, [Console Banner] @ ev @ [Console NoValidWallets])"
    by (simp add: start_def MiningCoordinator_def)
  show ?thesis
    unfolding aborted by (simp add: MiningCoordinator_def starts_running)
qed

theorem start_abort_sticks_witness:
  "fst (loadWallets None) = []
   \<and> starts [Some two_lines, Some two_lines] (MiningCoordinator (Some (fst (start None (MiningCoordinator None)))))
       = (\<lparr> bots = [], totalPaid = Fin 0, isRunning = True \<rparr>, [Console AlreadyRunning, Console AlreadyRunning])"
proof -
  have h: "fst (loadWallets None) = []"
    by (simp add: loadWallets_def)
  have "fst (start None (MiningCoordinator None)) = \<lparr> bots = [], totalPaid = Fin 0, isRunning = True \<rparr>"
    by (simp add: start_def loadWallets_def MiningCoordinator_def)
  with h start_abort_sticks [OF h, of "[Some two_lines, Some two_lines]"] show ?thesis
    by (simp add: MiningCoordinator_def del: starts.simps)
qed

end
